theory Spec2Isabelle
  imports Complex_Main "HOL-Library.Sublist"
begin

section \<open>RecipientsDisplay.vue: the text measurer\<close>

text \<open>
  Pixel widths are JavaScript numbers; they are modelled as reals. Strings are character
  lists, and \<open>length\<close> stands for the \<open>.length\<close> of a JavaScript string.

  \<open>calculateWidthOfTextForElement\<close> looks the element up by its id, makes sure that the
  reusable canvas and its 2d context exist, and then either asks the context for the
  width of the text under the element's computed font, or falls back to eight pixels
  per character plus twenty. The host side of that is a \<open>measuring\<close> record:
  \<open>measureText\<close> is the context's measuring function (\<open>None\<close> when no 2d context can
  be had), taking the font and the text, and \<open>fontOfElement\<close> gives the font string
  \<open>"<size>px <family>"\<close> computed for an element id (\<open>None\<close> when
  \<open>document.getElementById\<close> finds nothing). Vue patches the document after the pass,
  so one record serves a whole pass; the next pass may find another document.
\<close>

type_synonym elementID = string

record measuring =
  measureText :: "(string \<Rightarrow> string \<Rightarrow> real) option"
  fontOfElement :: "elementID \<Rightarrow> string option"

definition calculateWidthOfTextForElement :: "measuring \<Rightarrow> string \<Rightarrow> elementID \<Rightarrow> real" where
  "calculateWidthOfTextForElement doc text elementID =
     (case (measureText doc, fontOfElement doc elementID) of
        (Some metrics, Some font) \<Rightarrow> metrics font text
      | _ \<Rightarrow> real (length text) * 8 + 20)"

subsection \<open>Number.prototype.toString on a count\<close>

definition digitChar :: "nat \<Rightarrow> char" where
  "digitChar d = ''0123456789'' ! d"

function toString :: "nat \<Rightarrow> string" where
  "toString n = (if n < 10 then [digitChar n] else toString (n div 10) @ [digitChar (n mod 10)])"
  by pat_completeness auto
termination
  by (relation "measure id") auto

declare toString.simps [simp del]

section \<open>formatRecipientsForDisplay\<close>

text \<open>
  The component: the \<open>recipients\<close> prop, the client width of the container element
  (\<open>None\<close> while the \<open>container\<close> ref is still null), and the two refs the template
  renders. The record is extensible: its \<open>more\<close> part stands for whatever other state
  the page holds.
\<close>

record component =
  recipients :: "string list"
  clientWidth :: "real option"
  displayedRecipients :: string
  badgeNumber :: nat

text \<open>
  The constants of one loop step, named as in the source. \<open>len\<close> is
  \<open>props.recipients.length\<close>. Inside the loop \<open>index < len\<close>, so the subtractions on
  naturals below never truncate.
\<close>

definition numberOfHiddenRecipients :: "nat \<Rightarrow> nat \<Rightarrow> nat" where
  "numberOfHiddenRecipients len index = len - index"

definition isFirstRecipient :: "nat \<Rightarrow> bool" where
  "isFirstRecipient index = (index = 0)"

definition badgeNumberValue :: "nat \<Rightarrow> nat \<Rightarrow> nat" where
  "badgeNumberValue len index =
     (if isFirstRecipient index then numberOfHiddenRecipients len index - 1
      else numberOfHiddenRecipients len index)"

definition badgeLeftPadding :: real where "badgeLeftPadding = 2"
definition badgeRightPadding :: real where "badgeRightPadding = 2"
definition badgeMargin :: real where "badgeMargin = 5"

definition widthOfBadge :: "measuring \<Rightarrow> nat \<Rightarrow> nat \<Rightarrow> real" where
  "widthOfBadge doc len index =
     calculateWidthOfTextForElement doc
       (''+'' @ toString (numberOfHiddenRecipients len index)) ''badge-measure-element''
     + badgeMargin + badgeLeftPadding + badgeRightPadding"

definition isLastRecipient :: "nat \<Rightarrow> nat \<Rightarrow> bool" where
  "isLastRecipient len index = (int index = int len - 1)"

definition recipientText :: "nat \<Rightarrow> nat \<Rightarrow> string \<Rightarrow> string" where
  "recipientText len index recipient =
     (if isLastRecipient len index then recipient else recipient @ '', '')"

definition widthOfRecipient :: "measuring \<Rightarrow> nat \<Rightarrow> nat \<Rightarrow> string \<Rightarrow> real" where
  "widthOfRecipient doc len index recipient =
     calculateWidthOfTextForElement doc (recipientText len index recipient)
       ''recipients-text-measure-element''"

text \<open>The right-hand side of the comparison that decides whether a recipient is shown.\<close>

definition neededWidth :: "measuring \<Rightarrow> real \<Rightarrow> nat \<Rightarrow> nat \<Rightarrow> string \<Rightarrow> real" where
  "neededWidth doc widthOfEllipses len index recipient =
     widthOfRecipient doc len index recipient
     + (if isLastRecipient len index then 0 else widthOfEllipses)
     + (if badgeNumberValue len index > 0 then widthOfBadge doc len index else 0)"

text \<open>
  The \<open>for ... of props.recipients.entries()\<close> loop, as a recursion over the entries
  still to visit. The arguments after the entries are the loop's variables
  \<open>totalAvailableContainerWidth\<close>, \<open>recipientsString\<close> and the value of the
  \<open>badgeNumber\<close> ref; the result is the final \<open>recipientsString\<close> and \<open>badgeNumber\<close>.
  The \<open>break\<close> is the branch without a recursive call.
\<close>

fun entriesLoop ::
  "measuring \<Rightarrow> real \<Rightarrow> nat \<Rightarrow> nat \<Rightarrow> string list \<Rightarrow> real \<Rightarrow> string \<Rightarrow> nat \<Rightarrow> string \<times> nat" where
  "entriesLoop doc widthOfEllipses len index [] totalAvailableContainerWidth recipientsString badge =
     (recipientsString, badge)"
| "entriesLoop doc widthOfEllipses len index (recipient # rest) totalAvailableContainerWidth recipientsString badge =
     (if totalAvailableContainerWidth > neededWidth doc widthOfEllipses len index recipient
      then entriesLoop doc widthOfEllipses len (index + 1) rest
             (totalAvailableContainerWidth - widthOfRecipient doc len index recipient)
             (recipientsString @ recipientText len index recipient) badge
      else (recipientsString @ (if isFirstRecipient index then recipient else ''...''),
            badgeNumberValue len index))"

definition widthOfEllipses :: "measuring \<Rightarrow> real" where
  "widthOfEllipses doc =
     calculateWidthOfTextForElement doc '', ...'' ''recipients-text-measure-element''"

text \<open>\<open>container.value?.clientWidth || 0\<close>\<close>

definition containerWidth :: "'a component_scheme \<Rightarrow> real" where
  "containerWidth c = (case clientWidth c of Some w \<Rightarrow> w | None \<Rightarrow> 0)"

definition formatRecipientsForDisplay ::
  "measuring \<Rightarrow> 'a component_scheme \<Rightarrow> 'a component_scheme" where
  "formatRecipientsForDisplay doc c =
     (let totalAvailableContainerWidth = containerWidth c;
          (recipientsString, badge) =
             entriesLoop doc (widthOfEllipses doc) (length (recipients c)) 0 (recipients c)
               totalAvailableContainerWidth '''' 0
      in c\<lparr>displayedRecipients := recipientsString, badgeNumber := badge\<rparr>)"

section \<open>Notions the properties are stated with\<close>

text \<open>The two outputs of a pass, under the names the specification gives them.\<close>

definition displayText :: "measuring \<Rightarrow> 'a component_scheme \<Rightarrow> string" where
  "displayText doc c = displayedRecipients (formatRecipientsForDisplay doc c)"

definition hiddenCount :: "measuring \<Rightarrow> 'a component_scheme \<Rightarrow> nat" where
  "hiddenCount doc c = badgeNumber (formatRecipientsForDisplay doc c)"

text \<open>The text of a list of strings joined with a comma and a space.\<close>

fun commaSpaceJoin :: "string list \<Rightarrow> string" where
  "commaSpaceJoin [] = ''''"
| "commaSpaceJoin [r] = r"
| "commaSpaceJoin (r # rs) = r @ '', '' @ commaSpaceJoin rs"

text \<open>
  The value of \<open>totalAvailableContainerWidth\<close> when the loop reaches index \<open>i\<close>
  having shown every earlier recipient: the container width \<open>w\<close> less the widths
  subtracted so far, in the order the loop subtracts them.
\<close>

fun availableAt :: "measuring \<Rightarrow> real \<Rightarrow> string list \<Rightarrow> nat \<Rightarrow> real" where
  "availableAt doc w rs 0 = w"
| "availableAt doc w rs (Suc i) =
     availableAt doc w rs i - widthOfRecipient doc (length rs) i (rs ! i)"

text \<open>The loop's test for the recipient at index \<open>i\<close>, and the test passed by all of them.\<close>

definition recipientFits :: "measuring \<Rightarrow> real \<Rightarrow> string list \<Rightarrow> nat \<Rightarrow> bool" where
  "recipientFits doc w rs i =
     (availableAt doc w rs i > neededWidth doc (widthOfEllipses doc) (length rs) i (rs ! i))"

definition everyRecipientFits :: "measuring \<Rightarrow> real \<Rightarrow> string list \<Rightarrow> bool" where
  "everyRecipientFits doc w rs = (\<forall>i \<in> {0..<length rs}. recipientFits doc w rs i)"

text \<open>
  The measurer of a document in which nothing can be measured (no 2d context, no
  element): every width is the fallback formula. \<open>mounted rs w\<close> is a component with
  recipients \<open>rs\<close> in a container of client width \<open>w\<close>, before its first pass.
\<close>

definition noDocument :: measuring where
  "noDocument = \<lparr>measureText = None, fontOfElement = (\<lambda>_. None)\<rparr>"

definition mounted :: "string list \<Rightarrow> real \<Rightarrow> component" where
  "mounted rs w = \<lparr>recipients = rs, clientWidth = Some w, displayedRecipients = '''', badgeNumber = 0\<rparr>"

definition tenRecipients :: "string list" where
  "tenRecipients = [''a'', ''b'', ''c'', ''d'', ''e'', ''f'', ''g'', ''h'', ''i'', ''j'']"

section \<open>The fitting algorithm as the specification words it\<close>

text \<open>
  The specification's RecipientFitter, written from its pseudocode: one measurer
  \<open>msr\<close> for every text, the three fixed badge paddings as a record, and a scan by
  index \<open>i\<close> over the recipients \<open>rs\<close>.
\<close>

record fitterPaddings =
  padBadgeMargin :: real
  padBadgeLeft :: real
  padBadgeRight :: real

function referenceScan ::
  "(string \<Rightarrow> real) \<Rightarrow> fitterPaddings \<Rightarrow> string list \<Rightarrow> nat \<Rightarrow> real \<Rightarrow> string \<Rightarrow> string \<times> nat" where
  "referenceScan msr pads rs i remainingWidth output =
     (if i < length rs then
        (let remainingItems = length rs - i;
             isFirst = (i = 0);
             isLast = (Suc i = length rs);
             candidateHiddenCount = (if isFirst then remainingItems - 1 else remainingItems);
             badgeReserved =
               (if candidateHiddenCount > 0
                then msr (''+'' @ toString candidateHiddenCount)
                     + padBadgeMargin pads + padBadgeLeft pads + padBadgeRight pads
                else 0);
             ellipsisReserved = (if isLast then 0 else msr '', ...'');
             itemText = (if isLast then rs ! i else rs ! i @ '', '');
             itemWidth = msr itemText
         in if remainingWidth > itemWidth + ellipsisReserved + badgeReserved
            then referenceScan msr pads rs (i + 1) (remainingWidth - itemWidth) (output @ itemText)
            else (output @ (if isFirst then rs ! i else ''...''), candidateHiddenCount))
      else (output, 0))"
  by pat_completeness auto
termination
  by (relation "measure (\<lambda>(m, p, rs, i, w, out). length rs - i)") auto

declare referenceScan.simps [simp del]

definition referenceFit ::
  "(string \<Rightarrow> real) \<Rightarrow> fitterPaddings \<Rightarrow> real \<Rightarrow> string list \<Rightarrow> string \<times> nat" where
  "referenceFit msr pads w rs = referenceScan msr pads rs 0 w ''''"

text \<open>The deterministic fallback measurer and the paddings the component uses.\<close>

definition fallbackMeasure :: "string \<Rightarrow> real" where
  "fallbackMeasure text = real (length text) * 8 + 20"

definition componentPaddings :: fitterPaddings where
  "componentPaddings =
     \<lparr>padBadgeMargin = badgeMargin, padBadgeLeft = badgeLeftPadding, padBadgeRight = badgeRightPadding\<rparr>"

section \<open>The document the template renders\<close>

text \<open>
  The template renders the text span, whose id is \<open>recipients-text-measure-element\<close>,
  always, and the badge span, whose id is \<open>badge-measure-element\<close>, under
  \<open>v-if="badgeNumber > 0"\<close>. So \<open>document.getElementById\<close> finds the badge span only
  while the badge number left by the previous pass is positive, and a pass on a
  rendered component measures in the document its own refs describe. \<open>context\<close> is
  the measuring function of the canvas's 2d context (\<open>None\<close> when there is none),
  \<open>textFont\<close> and \<open>badgeFont\<close> are the fonts computed for the two spans.
\<close>

definition renderedDocument ::
  "(string \<Rightarrow> string \<Rightarrow> real) option \<Rightarrow> string \<Rightarrow> string \<Rightarrow> 'a component_scheme \<Rightarrow> measuring" where
  "renderedDocument context textFont badgeFont c =
     \<lparr>measureText = context,
      fontOfElement = (\<lambda>elementID.
        if elementID = ''recipients-text-measure-element'' then Some textFont
        else if elementID = ''badge-measure-element'' \<and> badgeNumber c > 0 then Some badgeFont
        else None)\<rparr>"

text \<open>One run of \<open>formatRecipientsForDisplay\<close> on a rendered component.\<close>

definition renderedPass ::
  "(string \<Rightarrow> string \<Rightarrow> real) option \<Rightarrow> string \<Rightarrow> string \<Rightarrow> 'a component_scheme \<Rightarrow> 'a component_scheme" where
  "renderedPass context textFont badgeFont c =
     formatRecipientsForDisplay (renderedDocument context textFont badgeFont c) c"

text \<open>
  A canvas whose font draws every character eight pixels wide, a page that uses it for
  both spans, and the \<open>resize\<close> listener on that page: the container has a new client
  width and the pass runs.
\<close>

definition eightPixelsPerCharacter :: "string \<Rightarrow> string \<Rightarrow> real" where
  "eightPixelsPerCharacter font text = real (length text) * 8"

definition monospacePass :: "component \<Rightarrow> component" where
  "monospacePass c =
     renderedPass (Some eightPixelsPerCharacter) ''16px monospace'' ''16px monospace'' c"

definition monospaceResize :: "real \<Rightarrow> component \<Rightarrow> component" where
  "monospaceResize w c = monospacePass (c\<lparr>clientWidth := Some w\<rparr>)"

section \<open>The loop, step by step\<close>

lemma commaSpaceJoin_Cons:
  "rs \<noteq> [] \<Longrightarrow> commaSpaceJoin (r # rs) = r @ '', '' @ commaSpaceJoin rs"
  by (cases rs) simp_all

lemma commaSpaceJoin_snoc:
  "rs \<noteq> [] \<Longrightarrow> commaSpaceJoin (rs @ [e]) = commaSpaceJoin rs @ '', '' @ e"
proof (induction rs)
  case Nil
  then show ?case by simp
next
  case (Cons r rs)
  show ?case
  proof (cases "rs = []")
    case True
    then show ?thesis by simp
  next
    case False
    then show ?thesis using Cons.IH by (simp add: commaSpaceJoin_Cons)
  qed
qed

lemma prefix_commaSpaceJoin: "prefix r (commaSpaceJoin (r # rs))"
  by (cases rs) simp_all

lemma isLastRecipient_iff: "index < len \<Longrightarrow> isLastRecipient len index = (Suc index = len)"
  by (auto simp add: isLastRecipient_def)

lemma loop_from:
  assumes "index \<le> length rs"
  shows "((\<forall>i. index \<le> i \<and> i < length rs \<longrightarrow> recipientFits doc w rs i) \<and>
          entriesLoop doc (widthOfEllipses doc) (length rs) index (drop index rs)
             (availableAt doc w rs index) str badge
           = (str @ commaSpaceJoin (drop index rs), badge))
       \<or> (\<exists>k. index \<le> k \<and> k < length rs \<and> \<not> recipientFits doc w rs k \<and>
              (\<forall>i. index \<le> i \<and> i < k \<longrightarrow> recipientFits doc w rs i) \<and>
              entriesLoop doc (widthOfEllipses doc) (length rs) index (drop index rs)
                (availableAt doc w rs index) str badge
              = (str @ (if k = 0 then rs ! 0
                        else commaSpaceJoin (take (k - index) (drop index rs) @ [''...''])),
                 badgeNumberValue (length rs) k))"
  using assms
proof (induction "length rs - index" arbitrary: index str)
  case 0
  then have "index = length rs" by simp
  then show ?case by (intro disjI1) auto
next
  case (Suc n)
  then have lt: "index < length rs" by simp
  have dr: "drop index rs = rs ! index # drop (Suc index) rs"
    using lt by (simp add: Cons_nth_drop_Suc)
  show ?case
  proof (cases "recipientFits doc w rs index")
    case False
    have "entriesLoop doc (widthOfEllipses doc) (length rs) index (drop index rs)
                (availableAt doc w rs index) str badge
          = (str @ (if index = 0 then rs ! 0 else ''...''), badgeNumberValue (length rs) index)"
      using False by (simp add: dr recipientFits_def isFirstRecipient_def)
    then show ?thesis using False lt
      by (intro disjI2 exI[of _ index]) auto
  next
    case True
    have step: "entriesLoop doc (widthOfEllipses doc) (length rs) index (drop index rs)
                (availableAt doc w rs index) str badge
          = entriesLoop doc (widthOfEllipses doc) (length rs) (Suc index) (drop (Suc index) rs)
                (availableAt doc w rs (Suc index))
                (str @ recipientText (length rs) index (rs ! index)) badge"
      using True by (simp add: dr recipientFits_def)
    have n: "n = length rs - Suc index" using Suc.hyps(2) by simp
    have le: "Suc index \<le> length rs" using lt by simp
    note IH = Suc.hyps(1)[OF n le, of "str @ recipientText (length rs) index (rs ! index)"]
    from IH show ?thesis
    proof (elim disjE conjE exE)
      assume all: "\<forall>i. Suc index \<le> i \<and> i < length rs \<longrightarrow> recipientFits doc w rs i"
        and eq: "entriesLoop doc (widthOfEllipses doc) (length rs) (Suc index) (drop (Suc index) rs)
                (availableAt doc w rs (Suc index))
                (str @ recipientText (length rs) index (rs ! index)) badge
           = ((str @ recipientText (length rs) index (rs ! index)) @ commaSpaceJoin (drop (Suc index) rs), badge)"
      have all': "\<forall>i. index \<le> i \<and> i < length rs \<longrightarrow> recipientFits doc w rs i"
        using all True by (metis Suc_leI le_neq_implies_less)
      have joined: "recipientText (length rs) index (rs ! index) @ commaSpaceJoin (drop (Suc index) rs)
                 = commaSpaceJoin (drop index rs)"
      proof (cases "Suc index = length rs")
        case True
        then show ?thesis using lt by (simp add: dr recipientText_def isLastRecipient_iff)
      next
        case False
        then have "drop (Suc index) rs \<noteq> []" using lt by simp
        then show ?thesis using False lt
          by (simp add: dr recipientText_def isLastRecipient_iff commaSpaceJoin_Cons
                   del: drop_eq_Nil drop_eq_Nil2)
      qed
      show ?thesis using all' step eq joined by simp
    next
      fix k
      assume k: "Suc index \<le> k" "k < length rs" "\<not> recipientFits doc w rs k"
        and pre: "\<forall>i. Suc index \<le> i \<and> i < k \<longrightarrow> recipientFits doc w rs i"
        and eq: "entriesLoop doc (widthOfEllipses doc) (length rs) (Suc index) (drop (Suc index) rs)
                (availableAt doc w rs (Suc index))
                (str @ recipientText (length rs) index (rs ! index)) badge
           = ((str @ recipientText (length rs) index (rs ! index)) @
                (if k = 0 then rs ! 0
                 else commaSpaceJoin (take (k - Suc index) (drop (Suc index) rs) @ [''...''])),
              badgeNumberValue (length rs) k)"
      have pre': "\<forall>i. index \<le> i \<and> i < k \<longrightarrow> recipientFits doc w rs i"
        using pre True by (metis Suc_leI le_neq_implies_less)
      have notlast: "Suc index \<noteq> length rs" using k by simp
      have tk: "take (k - index) (drop index rs)
                = rs ! index # take (k - Suc index) (drop (Suc index) rs)"
        using k by (simp add: dr Suc_diff_le take_Cons')
      have joined: "recipientText (length rs) index (rs ! index) @
                   commaSpaceJoin (take (k - Suc index) (drop (Suc index) rs) @ [''...''])
                 = commaSpaceJoin (take (k - index) (drop index rs) @ [''...''])"
        using notlast lt by (simp add: tk recipientText_def isLastRecipient_iff commaSpaceJoin_Cons)
      have "k \<noteq> 0" using k by simp
      then show ?thesis using k pre' step eq joined
        by (intro disjI2 exI[of _ k]) simp
    qed
  qed
qed

lemma pass_fields:
  "displayText doc c =
     fst (entriesLoop doc (widthOfEllipses doc) (length (recipients c)) 0 (recipients c)
            (containerWidth c) '''' 0)"
  "hiddenCount doc c =
     snd (entriesLoop doc (widthOfEllipses doc) (length (recipients c)) 0 (recipients c)
            (containerWidth c) '''' 0)"
  by (simp_all add: displayText_def hiddenCount_def formatRecipientsForDisplay_def Let_def
        split: prod.split)

text \<open>
  What a pass leaves behind: either every recipient fitted, or the scan stopped at the
  first index \<open>k\<close> whose test failed.
\<close>

lemma pass_outcome:
  "(everyRecipientFits doc (containerWidth c) (recipients c) \<and>
      displayText doc c = commaSpaceJoin (recipients c) \<and> hiddenCount doc c = 0)
   \<or> (\<exists>k. k < length (recipients c) \<and>
          \<not> recipientFits doc (containerWidth c) (recipients c) k \<and>
          (\<forall>i. i < k \<longrightarrow> recipientFits doc (containerWidth c) (recipients c) i) \<and>
          displayText doc c =
            (if k = 0 then recipients c ! 0
             else commaSpaceJoin (take k (recipients c)) @ '', ...'') \<and>
          hiddenCount doc c = badgeNumberValue (length (recipients c)) k)"
proof -
  let ?rs = "recipients c"
  let ?loop = "entriesLoop doc (widthOfEllipses doc) (length ?rs) 0 ?rs (containerWidth c) [] 0"
  consider (every) "\<forall>i<length ?rs. recipientFits doc (containerWidth c) ?rs i"
      "?loop = (commaSpaceJoin ?rs, 0)"
    | (stop) k where "k < length ?rs" "\<not> recipientFits doc (containerWidth c) ?rs k"
      "\<forall>i<k. recipientFits doc (containerWidth c) ?rs i"
      "?loop = (if k = 0 then ?rs ! 0 else commaSpaceJoin (take k ?rs @ [''...'']),
                badgeNumberValue (length ?rs) k)"
    using loop_from[of 0 ?rs doc "containerWidth c" "[]" 0] by auto
  then show ?thesis
  proof cases
    case every
    then show ?thesis
      by (intro disjI1) (simp add: pass_fields everyRecipientFits_def)
  next
    case stop
    have "k \<noteq> 0 \<Longrightarrow> take k ?rs \<noteq> []" using stop(1) by auto
    then show ?thesis using stop
      by (intro disjI2 exI[of _ k]) (auto simp add: pass_fields commaSpaceJoin_snoc)
  qed
qed

lemma badgeNumberValue_simps:
  "badgeNumberValue len 0 = len - 1"
  "0 < k \<Longrightarrow> badgeNumberValue len k = len - k"
  by (simp_all add: badgeNumberValue_def isFirstRecipient_def numberOfHiddenRecipients_def)

lemma pass_cases:
  obtains (every) "everyRecipientFits doc (containerWidth c) (recipients c)"
      "displayText doc c = commaSpaceJoin (recipients c)" "hiddenCount doc c = 0"
    | (first) "0 < length (recipients c)"
      "\<not> recipientFits doc (containerWidth c) (recipients c) 0"
      "displayText doc c = recipients c ! 0"
      "hiddenCount doc c = length (recipients c) - 1"
    | (later) k where "0 < k" "k < length (recipients c)"
      "\<not> recipientFits doc (containerWidth c) (recipients c) k"
      "\<forall>i<k. recipientFits doc (containerWidth c) (recipients c) i"
      "displayText doc c = commaSpaceJoin (take k (recipients c)) @ '', ...''"
      "hiddenCount doc c = length (recipients c) - k"
proof -
  from pass_outcome[of doc c] show thesis
  proof (elim disjE conjE exE)
    assume "everyRecipientFits doc (containerWidth c) (recipients c)"
      "displayText doc c = commaSpaceJoin (recipients c)" "hiddenCount doc c = 0"
    then show thesis by (rule every)
  next
    fix k
    assume k: "k < length (recipients c)"
        "\<not> recipientFits doc (containerWidth c) (recipients c) k"
        "\<forall>i<k. recipientFits doc (containerWidth c) (recipients c) i"
      and d: "displayText doc c =
            (if k = 0 then recipients c ! 0
             else commaSpaceJoin (take k (recipients c)) @ '', ...'')"
      and h: "hiddenCount doc c = badgeNumberValue (length (recipients c)) k"
    show thesis
    proof (cases "k = 0")
      case True
      show thesis
      proof (rule first)
        show "0 < length (recipients c)" using k(1) by auto
        show "\<not> recipientFits doc (containerWidth c) (recipients c) 0" using k(2) True by simp
        show "displayText doc c = recipients c ! 0" using d True by simp
        show "hiddenCount doc c = length (recipients c) - 1"
          using h True by (simp add: badgeNumberValue_simps)
      qed
    next
      case False
      show thesis
      proof (rule later[of k])
        show "0 < k" using False by simp
        show "hiddenCount doc c = length (recipients c) - k"
          using h False by (simp add: badgeNumberValue_simps)
        show "displayText doc c = commaSpaceJoin (take k (recipients c)) @ '', ...''"
          using d False by simp
      qed (use k in simp_all)
    qed
  qed
qed

lemma availableAt_mono:
  "w2 \<le> w1 \<Longrightarrow> availableAt doc w2 rs i \<le> availableAt doc w1 rs i"
  by (induction i) simp_all

lemma recipientFits_mono:
  "w2 \<le> w1 \<Longrightarrow> recipientFits doc w2 rs i \<Longrightarrow> recipientFits doc w1 rs i"
  using availableAt_mono[of w2 w1 doc rs i] by (simp add: recipientFits_def)

lemma badgeNumberValue_antitone:
  "k2 \<le> k1 \<Longrightarrow> badgeNumberValue len k1 \<le> badgeNumberValue len k2"
  by (auto simp add: badgeNumberValue_def isFirstRecipient_def numberOfHiddenRecipients_def)

text \<open>
  Measured in one and the same document, a narrower container never hides fewer
  recipients.
\<close>

lemma antitone_in_one_document:
  assumes "recipients c2 = recipients c1" and "containerWidth c2 < containerWidth c1"
  shows "hiddenCount doc c1 \<le> hiddenCount doc c2"
proof (cases rule: pass_cases[of doc c1])
  case every
  then show ?thesis by simp
next
  case first
  have nf: "\<not> recipientFits doc (containerWidth c2) (recipients c2) 0"
    using first(2) assms recipientFits_mono[of "containerWidth c2" "containerWidth c1" doc "recipients c1" 0]
    by auto
  show ?thesis
  proof (cases rule: pass_cases[of doc c2])
    case every
    then show ?thesis using nf first(1) assms(1) by (simp add: everyRecipientFits_def)
  next
    case first
    then show ?thesis using \<open>hiddenCount doc c1 = length (recipients c1) - 1\<close> assms(1) by simp
  next
    case (later k)
    then show ?thesis using nf by simp
  qed
next
  case (later k1)
  have nf: "\<not> recipientFits doc (containerWidth c2) (recipients c2) k1"
    using later(3) assms recipientFits_mono[of "containerWidth c2" "containerWidth c1" doc "recipients c1" k1]
    by auto
  have h1: "hiddenCount doc c1 = length (recipients c1) - k1" by (rule later(6))
  show ?thesis
  proof (cases rule: pass_cases[of doc c2])
    case every
    then show ?thesis using nf later(2) assms(1) by (simp add: everyRecipientFits_def)
  next
    case first
    then show ?thesis using h1 later(1) assms(1) by simp
  next
    case (later k2)
    have "k2 \<le> k1" using later(4) nf by (metis not_le)
    then show ?thesis using h1 later(6) assms(1) by simp
  qed
qed

section \<open>The claims\<close>

subsection \<open>C1: the pass against the specification's algorithm\<close>

text \<open>
  C1 says that \<open>formatRecipientsForDisplay\<close> returns exactly the pair the
  specification's scan computes, whose badge reservation measures \<open>"+"\<close> followed by
  the candidate hidden count. The component measures \<open>"+"\<close> followed by
  \<open>numberOfHiddenRecipients\<close> instead, which at the first recipient is one more than
  the count the badge would show. With ten one-letter recipients, a container 150
  pixels wide and the fallback measurer, the label is \<open>+10\<close> where the specification
  measures \<open>+9\<close>: the component stops at the first recipient and shows \<open>a\<close>, the
  specification's scan accepts it and shows \<open>a, ...\<close>.
\<close>

theorem formatRecipientsForDisplay_differs_from_reference:
  "(displayText noDocument (mounted tenRecipients 150),
    hiddenCount noDocument (mounted tenRecipients 150)) = (''a'', 9)
   \<and> referenceFit fallbackMeasure componentPaddings 150 tenRecipients = (''a, ...'', 9)"
  by code_simp

subsection \<open>C2: the label whose width is reserved\<close>

text \<open>
  C2 says that at every step the measured badge label is \<open>"+"\<close> followed by the hidden
  count a failure at that step would produce. At the first of ten recipients that count
  is 9, and its label under the fallback measurer would reserve 45 pixels with the
  paddings; the component measures \<open>+10\<close> and reserves 53.
\<close>

theorem widthOfBadge_label_at_first_recipient:
  "widthOfBadge noDocument 10 0
     = calculateWidthOfTextForElement noDocument ''+10'' ''badge-measure-element'' + 9
   \<and> widthOfBadge noDocument 10 0 = 53
   \<and> badgeNumberValue 10 0 = 9
   \<and> calculateWidthOfTextForElement noDocument (''+'' @ toString (badgeNumberValue 10 0))
        ''badge-measure-element'' + badgeMargin + badgeLeftPadding + badgeRightPadding = 45"
  by code_simp

subsection \<open>C3: full fit\<close>

text \<open>
  C3, as amended: if every recipient passes the loop's test, that is, the width left
  after the earlier recipients is strictly greater than its own width plus the ellipsis
  reservation (unless it is last) plus the badge reservation (when the candidate hidden
  count is positive), then the hidden count is 0 and the displayed text is the
  comma-space join of the whole list.
\<close>

theorem full_fit_when_every_recipient_fits:
  assumes "everyRecipientFits doc (containerWidth c) (recipients c)"
  shows "hiddenCount doc c = 0 \<and> displayText doc c = commaSpaceJoin (recipients c)"
proof (cases rule: pass_cases[of doc c])
  case every
  then show ?thesis by simp
next
  case first
  then show ?thesis using assms by (simp add: everyRecipientFits_def)
next
  case (later k)
  then show ?thesis using assms by (simp add: everyRecipientFits_def)
qed

text \<open>Two recipients in 150 pixels under the fallback measurer all fit.\<close>

theorem full_fit_when_every_recipient_fits_witness:
  "everyRecipientFits noDocument (containerWidth (mounted [''a'', ''b''] 150))
      (recipients (mounted [''a'', ''b''] 150))
   \<and> hiddenCount noDocument (mounted [''a'', ''b''] 150) = 0
   \<and> displayText noDocument (mounted [''a'', ''b''] 150) = ''a, b''"
proof -
  have h: "everyRecipientFits noDocument (containerWidth (mounted [''a'', ''b''] 150))
      (recipients (mounted [''a'', ''b''] 150))"
    by code_simp
  show ?thesis using h full_fit_when_every_recipient_fits[OF h] by (simp add: mounted_def)
qed

text \<open>
  C3 as written fails: the two widths sum to 72, the container is 100 wide, and the
  pass hides one recipient, because the first one must leave room for the ellipsis and
  the badge.
\<close>

theorem full_fit_counterexample:
  "widthOfRecipient noDocument 2 0 ''a'' + widthOfRecipient noDocument 2 1 ''b'' \<le> 100
   \<and> hiddenCount noDocument (mounted [''a'', ''b''] 100) = 1
   \<and> displayText noDocument (mounted [''a'', ''b''] 100) = ''a''"
  by code_simp

subsection \<open>C4: badge consistency\<close>

text \<open>
  C4, as amended: the hidden count is positive if and only if the list has at least two
  recipients and some recipient fails the loop's test; the displayed text is then the
  first identifier alone or the join of a proper non-empty prefix followed by a comma,
  a space and the ellipsis; and whenever the hidden count is 0 the displayed text is
  the join of the whole list, every recipient in full.
\<close>

theorem badge_consistency:
  "(0 < hiddenCount doc c \<longleftrightarrow>
      2 \<le> length (recipients c) \<and> \<not> everyRecipientFits doc (containerWidth c) (recipients c))
   \<and> (0 < hiddenCount doc c \<longrightarrow>
        (\<exists>r rest. recipients c = r # rest \<and> displayText doc c = r)
        \<or> (\<exists>k. 0 < k \<and> k < length (recipients c) \<and>
               displayText doc c = commaSpaceJoin (take k (recipients c)) @ '', ...''))
   \<and> (hiddenCount doc c = 0 \<longrightarrow> displayText doc c = commaSpaceJoin (recipients c))"
proof (cases rule: pass_cases[of doc c])
  case every
  then show ?thesis by simp
next
  case first
  then obtain r rest where rs: "recipients c = r # rest" by (cases "recipients c") auto
  have nev: "\<not> everyRecipientFits doc (containerWidth c) (recipients c)"
    using first(1,2) by (auto simp add: everyRecipientFits_def)
  have a: "0 < hiddenCount doc c \<longleftrightarrow>
      2 \<le> length (recipients c) \<and> \<not> everyRecipientFits doc (containerWidth c) (recipients c)"
    using first(4) nev by auto
  have b: "\<exists>r rest. recipients c = r # rest \<and> displayText doc c = r"
    using first(3) rs by simp
  have c: "hiddenCount doc c = 0 \<longrightarrow> displayText doc c = commaSpaceJoin (recipients c)"
    using first(3,4) rs by simp
  show ?thesis using a b c by blast
next
  case (later k)
  have nev: "\<not> everyRecipientFits doc (containerWidth c) (recipients c)"
    using later(2,3) by (auto simp add: everyRecipientFits_def)
  have a: "0 < hiddenCount doc c" using later(1,2,6) by simp
  have a': "2 \<le> length (recipients c)" using later(1,2) by simp
  have b: "\<exists>k. 0 < k \<and> k < length (recipients c) \<and>
               displayText doc c = commaSpaceJoin (take k (recipients c)) @ '', ...''"
    using later(1,2,5) by blast
  show ?thesis using a a' b nev by simp
qed

text \<open>
  Three recipients in 150 pixels: two are hidden, so some recipient failed the test.
  Two recipients in 150 pixels: none is hidden, and the text is the whole join.
\<close>

theorem badge_consistency_witness:
  "0 < hiddenCount noDocument (mounted [''a'', ''b'', ''c''] 150)
   \<and> \<not> everyRecipientFits noDocument (containerWidth (mounted [''a'', ''b'', ''c''] 150))
          (recipients (mounted [''a'', ''b'', ''c''] 150))
   \<and> hiddenCount noDocument (mounted [''a'', ''b''] 150) = 0
   \<and> displayText noDocument (mounted [''a'', ''b''] 150)
       = commaSpaceJoin (recipients (mounted [''a'', ''b''] 150))"
proof -
  have pos: "0 < hiddenCount noDocument (mounted [''a'', ''b'', ''c''] 150)"
    by code_simp
  have zero: "hiddenCount noDocument (mounted [''a'', ''b''] 150) = 0"
    by code_simp
  show ?thesis
    using pos zero badge_consistency[of noDocument "mounted [''a'', ''b'', ''c''] 150"]
      badge_consistency[of noDocument "mounted [''a'', ''b''] 150"]
    by simp
qed

text \<open>
  C4 as written fails for a single recipient that does not fit: the displayed text is
  the first identifier alone, with nothing after it, and the hidden count is 0.
\<close>

theorem badge_consistency_counterexample:
  "displayText noDocument (mounted [''averylongaddress@example.com''] 100)
     = hd [''averylongaddress@example.com'']
   \<and> \<not> 0 < hiddenCount noDocument (mounted [''averylongaddress@example.com''] 100)"
  by code_simp

subsection \<open>C5: the first recipient is always shown\<close>

text \<open>
  C5, as amended: for every list whose first identifier is not the empty string, and
  every container width, the displayed text is not empty; it starts with the first
  identifier in full, whether or not that identifier fits.
\<close>

theorem first_item_guarantee:
  assumes "recipients c = r # rest" and "r \<noteq> ''''"
  shows "displayText doc c \<noteq> '''' \<and> prefix r (displayText doc c)"
proof -
  have p: "prefix r (displayText doc c)"
  proof (cases rule: pass_cases[of doc c])
    case every
    then show ?thesis using assms(1) prefix_commaSpaceJoin[of r rest] by simp
  next
    case first
    then show ?thesis using assms(1) by simp
  next
    case (later k)
    then obtain j where j: "k = Suc j" by (cases k) auto
    have "prefix r (commaSpaceJoin (r # take j rest))" by (rule prefix_commaSpaceJoin)
    then show ?thesis using later(5) assms(1) j by simp
  qed
  then show ?thesis using assms(2) by auto
qed

text \<open>A container of width 0: the first of two recipients does not fit and is shown.\<close>

theorem first_item_guarantee_witness:
  "recipients (mounted [''a'', ''b''] 0) = ''a'' # [''b''] \<and> ''a'' \<noteq> ''''
   \<and> displayText noDocument (mounted [''a'', ''b''] 0) \<noteq> ''''
   \<and> prefix ''a'' (displayText noDocument (mounted [''a'', ''b''] 0))"
proof -
  have h: "recipients (mounted [''a'', ''b''] 0) = ''a'' # [''b'']"
    by (simp add: mounted_def)
  have n: "''a'' \<noteq> ''''" by simp
  show ?thesis using h n first_item_guarantee[OF h n, of noDocument] by simp
qed

text \<open>
  C5 as written fails when the first identifier is the empty string, an entry the
  component accepts as it is: the list is not empty and the displayed text is.
\<close>

theorem first_item_counterexample:
  "recipients (mounted [''''] 0) \<noteq> [] \<and> displayText noDocument (mounted [''''] 0) = ''''"
  by code_simp

subsection \<open>C6: shrinking the container never lowers the hidden count\<close>

text \<open>
  C6 says that for a fixed recipient list and measurer a narrower container never
  hides fewer recipients. On a rendered page it does. Two recipients, a canvas of eight
  pixels per character: at width 1000 both are shown; resized to 100 the badge span is
  absent, the badge label is measured by the fallback formula, and one recipient is
  hidden; resized further to 95 the badge span is present, the label is measured by
  the canvas, and none is hidden.
\<close>

theorem shrinking_resize_lowers_hidden_count:
  "recipients (monospacePass (mounted [''a'', ''b''] 1000)) = [''a'', ''b'']
   \<and> badgeNumber (monospacePass (mounted [''a'', ''b''] 1000)) = 0
   \<and> badgeNumber (monospaceResize 100 (monospacePass (mounted [''a'', ''b''] 1000))) = 1
   \<and> badgeNumber
        (monospaceResize 95 (monospaceResize 100 (monospacePass (mounted [''a'', ''b''] 1000)))) = 0
   \<and> displayedRecipients
        (monospaceResize 95 (monospaceResize 100 (monospacePass (mounted [''a'', ''b''] 1000))))
       = ''a, b''"
  by code_simp

subsection \<open>C7: whole identifiers only\<close>

text \<open>
  C7: the displayed text is the comma-space join of the recipient list, or the first
  identifier alone, or the join of a proper non-empty prefix of the list followed by
  the separator and the ellipsis (\<open>a, b, ...\<close>). So every identifier in it is a whole
  entry of the list, and a cut identifier never occurs.
\<close>

theorem whole_identifiers:
  "displayText doc c = commaSpaceJoin (recipients c)
   \<or> (\<exists>r rest. recipients c = r # rest \<and> displayText doc c = r)
   \<or> (\<exists>k. 0 < k \<and> k < length (recipients c) \<and>
          displayText doc c = commaSpaceJoin (take k (recipients c)) @ '', ...'')"
proof (cases rule: pass_cases[of doc c])
  case every
  then show ?thesis by simp
next
  case first
  then obtain r rest where "recipients c = r # rest" by (cases "recipients c") auto
  then show ?thesis using first(3) by simp
next
  case (later k)
  then have "\<exists>k. 0 < k \<and> k < length (recipients c) \<and>
          displayText doc c = commaSpaceJoin (take k (recipients c)) @ '', ...''"
    by blast
  then show ?thesis by simp
qed

subsection \<open>C8: the empty list\<close>

text \<open>
  C8: with no recipients the pass ends with the empty text and hidden count 0, for any
  container width and measurer; the pass has no failing branch.
\<close>

theorem empty_recipient_list:
  "displayText doc (c\<lparr>recipients := []\<rparr>) = ''''
   \<and> hiddenCount doc (c\<lparr>recipients := []\<rparr>) = 0"
  by (simp add: pass_fields)

subsection \<open>C9: a pass depends on its inputs only\<close>

text \<open>
  C9 says that two runs with the same container width, the same recipient list and the
  same measurer end with the same displayed text and the same hidden count. On a
  rendered page they do not: with two recipients, width 100 and a canvas of eight
  pixels per character, consecutive passes alternate between \<open>a\<close> with one hidden and
  \<open>a, b\<close> with none, because each result adds or removes the badge span by whose
  presence the next pass measures the badge label. The recipients and the client
  width are the same before every one of the three passes.
\<close>

theorem consecutive_passes_alternate:
  "recipients (monospacePass (mounted [''a'', ''b''] 100)) = recipients (mounted [''a'', ''b''] 100)
   \<and> clientWidth (monospacePass (mounted [''a'', ''b''] 100)) = clientWidth (mounted [''a'', ''b''] 100)
   \<and> recipients (monospacePass (monospacePass (mounted [''a'', ''b''] 100)))
       = recipients (mounted [''a'', ''b''] 100)
   \<and> clientWidth (monospacePass (monospacePass (mounted [''a'', ''b''] 100)))
       = clientWidth (mounted [''a'', ''b''] 100)
   \<and> (displayedRecipients (monospacePass (mounted [''a'', ''b''] 100)),
       badgeNumber (monospacePass (mounted [''a'', ''b''] 100))) = (''a'', 1)
   \<and> (displayedRecipients (monospacePass (monospacePass (mounted [''a'', ''b''] 100))),
       badgeNumber (monospacePass (monospacePass (mounted [''a'', ''b''] 100)))) = (''a, b'', 0)
   \<and> (displayedRecipients (monospacePass (monospacePass (monospacePass (mounted [''a'', ''b''] 100)))),
       badgeNumber (monospacePass (monospacePass (monospacePass (mounted [''a'', ''b''] 100)))))
       = (''a'', 1)"
  by code_simp

subsection \<open>C10: shown and hidden recipients add up\<close>

text \<open>
  C10: with \<open>N\<close> recipients and hidden count \<open>h\<close>, the displayed text is the join of
  exactly the first \<open>N - h\<close> recipients, with or without the trailing separator and
  ellipsis, so the recipients shown and the recipients hidden add up to \<open>N\<close>; and for
  a non-empty list at least one recipient is shown, so \<open>h\<close> is at most \<open>N - 1\<close>.
\<close>

theorem shown_plus_hidden:
  "hiddenCount doc c \<le> length (recipients c)
   \<and> (displayText doc c
        = commaSpaceJoin (take (length (recipients c) - hiddenCount doc c) (recipients c))
      \<or> displayText doc c
        = commaSpaceJoin (take (length (recipients c) - hiddenCount doc c) (recipients c)) @ '', ...'')
   \<and> (recipients c \<noteq> [] \<longrightarrow>
        hiddenCount doc c \<le> length (recipients c) - 1
        \<and> 1 \<le> length (recipients c) - hiddenCount doc c)"
proof (cases rule: pass_cases[of doc c])
  case every
  then show ?thesis by (cases "recipients c") simp_all
next
  case first
  then obtain r rest where rs: "recipients c = r # rest" by (cases "recipients c") auto
  show ?thesis using first rs by simp
next
  case (later k)
  then show ?thesis by auto
qed

text \<open>Three recipients in 150 pixels: one shown, two hidden.\<close>

theorem shown_plus_hidden_witness:
  "recipients (mounted [''a'', ''b'', ''c''] 150) \<noteq> []
   \<and> hiddenCount noDocument (mounted [''a'', ''b'', ''c''] 150)
       \<le> length (recipients (mounted [''a'', ''b'', ''c''] 150)) - 1
   \<and> 1 \<le> length (recipients (mounted [''a'', ''b'', ''c''] 150))
           - hiddenCount noDocument (mounted [''a'', ''b'', ''c''] 150)"
proof -
  have n: "recipients (mounted [''a'', ''b'', ''c''] 150) \<noteq> []"
    by (simp add: mounted_def)
  show ?thesis using n shown_plus_hidden[of noDocument "mounted [''a'', ''b'', ''c''] 150"] by simp
qed

end
